theory Spec2Isabelle
  imports Main
begin

section \<open>The dual-backend badge store of lumi\<close>

text \<open>
  A shallow embedding of \<^verbatim>\<open>js/models/core/UserStorageModel.js\<close>,
  \<^verbatim>\<open>js/models/core/SupabaseStorageModel.js\<close> and
  \<^verbatim>\<open>js/utils/DataMigrationUtil.js\<close>.

  Every method becomes a function that takes the object it is called on, the browser
  environment and the clock reading \<open>now\<close>, and returns its result with the updated
  object and environment. One call reads the clock as one instant. A JavaScript exception
  that leaves a method is the \<open>Inl\<close> branch of its result; a \<^verbatim>\<open>try\<close> block is a function
  named \<open>..._try\<close>, its handler one named \<open>..._catch\<close>.
  Only \<^verbatim>\<open>console.error\<close> is recorded of the console.
\<close>

subsection \<open>Strings\<close>

text \<open>A JavaScript string is its list of UTF-16 code units.\<close>

type_synonym jsstring = "nat list"

definition js :: "string \<Rightarrow> jsstring" where
  "js s = map of_char s"

text \<open>
  The code units that \<^verbatim>\<open>String.prototype.trim\<close> strips and that \<^verbatim>\<open>\s\<close> matches:
  ECMAScript's WhiteSpace and LineTerminator.
\<close>

definition is_ws :: "nat \<Rightarrow> bool" where
  "is_ws c \<longleftrightarrow>
     (9 \<le> c \<and> c \<le> 13) \<or> c = 32 \<or> c = 160 \<or> c = 5760 \<or> (8192 \<le> c \<and> c \<le> 8202) \<or>
     c = 8232 \<or> c = 8233 \<or> c = 8239 \<or> c = 8287 \<or> c = 12288 \<or> c = 65279"

definition trim :: "jsstring \<Rightarrow> jsstring" where
  "trim s = rev (dropWhile is_ws (rev (dropWhile is_ws s)))"

text \<open>\<^verbatim>\<open>s.replace(/\s+/g, '_')\<close>: every maximal run of whitespace becomes one underscore.\<close>

function replace_ws :: "jsstring \<Rightarrow> jsstring" where
  "replace_ws [] = []"
| "replace_ws (c # cs) =
     (if is_ws c then 95 # replace_ws (dropWhile is_ws cs) else c # replace_ws cs)"
  by pat_completeness auto
termination
  by (relation "measure length") (auto simp: length_dropWhile_le le_imp_less_Suc)

text \<open>\<^verbatim>\<open>!username || username.trim() === ''\<close>\<close>

definition blank :: "jsstring \<Rightarrow> bool" where
  "blank s \<longleftrightarrow> s = [] \<or> trim s = []"

text \<open>\<^verbatim>\<open>password && password.trim() !== ''\<close>; \<open>None\<close> is an argument that was left out.\<close>

definition given :: "jsstring option \<Rightarrow> bool" where
  "given p = (case p of None \<Rightarrow> False | Some s \<Rightarrow> s \<noteq> [] \<and> trim s \<noteq> [])"

subsection \<open>Data\<close>

datatype rerror = PGRST116 | InvalidLoginCredentials | OtherError

datatype exn = TypeError | SyntaxError | QuotaExceededError | Failure rerror | UserNotFound

text \<open>A badge as the two models return it; \<open>earnedAt = None\<close> is the empty string.\<close>

record badge =
  name :: jsstring
  emoji :: jsstring
  earnedAt :: "int option"

text \<open>A persisted badge is an object or, in old data, a bare string.\<close>

datatype stored_badge = Legacy jsstring | Obj badge

record user_data =
  badges :: "stored_badge list option"
  createdAt :: int

type_synonym users = "jsstring \<rightharpoonup> user_data"

text \<open>
  The text under the key \<^verbatim>\<open>lumi_users\<close>, seen through \<^verbatim>\<open>JSON.parse\<close>: a text that
  the parser rejects (the empty text is one), or the text that \<^verbatim>\<open>JSON.stringify\<close> makes of
  a users object. A text that parses is taken to have the persisted layout
  \<^verbatim>\<open>{ [username]: { badges, createdAt } }\<close>, and user names are taken not to be names of
  members of \<^verbatim>\<open>Object.prototype\<close>.
\<close>

datatype blob = Unparsable jsstring | Stringified users

definition JSON_parse :: "blob \<Rightarrow> exn + users" where
  "JSON_parse b = (case b of Unparsable _ \<Rightarrow> Inl SyntaxError | Stringified us \<Rightarrow> Inr us)"

definition JSON_stringify :: "users \<Rightarrow> blob" where
  "JSON_stringify us = Stringified us"

definition falsy_text :: "blob \<Rightarrow> bool" where
  "falsy_text b = (case b of Unparsable s \<Rightarrow> s = [] | Stringified _ \<Rightarrow> False)"

subsection \<open>The remote service\<close>

text \<open>
  The Supabase service is outside the repository. Its model follows the repository's
  \<^verbatim>\<open>SupabaseMockClient\<close> (the test double of the integration tests): a users table, a
  badges table in insertion order, stored procedure \<^verbatim>\<open>get_or_create_user\<close>, and
  password accounts. Rows of equal earn time are returned in insertion order. \<open>down\<close> lists the endpoints that fail at the moment, as the tests make
  a call fail by replacing it: a call to such an endpoint rejects, which the callers treat
  like an error answer. \<open>callLog\<close> is the mock's log of the calls received.
\<close>

datatype endpoint = Rpc | UsersSelect | BadgesInsert | BadgesSelect | SignIn | SignUp | SignOut

datatype 'a response = Data 'a | Error rerror

record badge_row =
  user_id :: jsstring
  badge_name :: jsstring
  badge_emoji :: jsstring
  earned_at :: int

record remote =
  users_tbl :: "jsstring \<rightharpoonup> jsstring"
  badges_tbl :: "badge_row list"
  accounts :: "jsstring \<rightharpoonup> jsstring \<times> jsstring"
  next_id :: nat
  down :: "endpoint list"
  callLog :: "endpoint list"

definition mk_id :: "nat \<Rightarrow> jsstring" where
  "mk_id n = js ''user-'' @ replicate (Suc n) 105"

definition logged :: "endpoint \<Rightarrow> remote \<Rightarrow> remote" where
  "logged ep r = r\<lparr>callLog := callLog r @ [ep]\<rparr>"

definition getOrCreateUser :: "remote \<Rightarrow> jsstring \<Rightarrow> jsstring response \<times> remote" where
  "getOrCreateUser r username =
     (let r1 = logged Rpc r in
      if Rpc \<in> set (down r) then (Error OtherError, r1)
      else case users_tbl r username of
             Some uid \<Rightarrow> (Data uid, r1)
           | None \<Rightarrow>
               (Data (mk_id (next_id r)),
                r1\<lparr>users_tbl := (users_tbl r)(username \<mapsto> mk_id (next_id r)),
                   next_id := Suc (next_id r)\<rparr>))"

text \<open>\<^verbatim>\<open>from('users').select('id').eq('username', u).single()\<close>\<close>

definition select_user_id :: "remote \<Rightarrow> jsstring \<Rightarrow> jsstring response \<times> remote" where
  "select_user_id r username =
     (let r1 = logged UsersSelect r in
      if UsersSelect \<in> set (down r) then (Error OtherError, r1)
      else case users_tbl r username of
             None \<Rightarrow> (Error PGRST116, r1)
           | Some uid \<Rightarrow> (Data uid, r1))"

text \<open>\<^verbatim>\<open>from('badges').insert([row])\<close>\<close>

definition insert_badge :: "remote \<Rightarrow> badge_row \<Rightarrow> unit response \<times> remote" where
  "insert_badge r row =
     (let r1 = logged BadgesInsert r in
      if BadgesInsert \<in> set (down r) then (Error OtherError, r1)
      else (Data (), r1\<lparr>badges_tbl := badges_tbl r @ [row]\<rparr>))"

text \<open>
  \<^verbatim>\<open>from('badges').select(...).eq('user_id', id).order('earned_at', { ascending: true })\<close>
\<close>

definition select_badges :: "remote \<Rightarrow> jsstring \<Rightarrow> badge_row list response \<times> remote" where
  "select_badges r uid =
     (let r1 = logged BadgesSelect r in
      if BadgesSelect \<in> set (down r) then (Error OtherError, r1)
      else (Data (sort_key earned_at (filter (\<lambda>row. user_id row = uid) (badges_tbl r))), r1))"

text \<open>The answer of an auth call carries the auth user, or none.\<close>

definition signInWithPassword ::
  "remote \<Rightarrow> jsstring \<Rightarrow> jsstring \<Rightarrow> jsstring option response \<times> remote" where
  "signInWithPassword r email password =
     (let r1 = logged SignIn r in
      if SignIn \<in> set (down r) then (Error OtherError, r1)
      else case accounts r email of
             None \<Rightarrow> (Error InvalidLoginCredentials, r1)
           | Some (pw, aid) \<Rightarrow>
               if pw = password then (Data (Some aid), r1)
               else (Error InvalidLoginCredentials, r1))"

definition signUp ::
  "remote \<Rightarrow> jsstring \<Rightarrow> jsstring \<Rightarrow> jsstring option response \<times> remote" where
  "signUp r email password =
     (let r1 = logged SignUp r in
      if SignUp \<in> set (down r) then (Error OtherError, r1)
      else case accounts r email of
             Some _ \<Rightarrow> (Error OtherError, r1)
           | None \<Rightarrow>
               (Data (Some (mk_id (next_id r))),
                r1\<lparr>accounts := (accounts r)(email \<mapsto> (password, mk_id (next_id r))),
                   next_id := Suc (next_id r)\<rparr>))"

definition signOut :: "remote \<Rightarrow> unit response \<times> remote" where
  "signOut r =
     (let r1 = logged SignOut r in
      if SignOut \<in> set (down r) then (Error OtherError, r1) else (Data (), r1))"

subsection \<open>The browser environment\<close>

text \<open>
  \<open>sessionStorage\<close> maps keys to values; of \<open>localStorage\<close> only the item
  \<^verbatim>\<open>lumi_users\<close> is ever used. While \<open>quota_exceeded\<close> holds,
  \<^verbatim>\<open>localStorage.setItem\<close> throws; \<^verbatim>\<open>sessionStorage.setItem\<close> is taken not to throw.
  \<open>toLowerCase\<close> is the platform's case mapping.
\<close>

record env =
  sessionStorage :: "string \<rightharpoonup> jsstring"
  localStorage :: "blob option"
  quota_exceeded :: bool
  remote :: remote
  console :: "string list"
  toLowerCase :: "jsstring \<Rightarrow> jsstring"

definition console_error :: "string \<Rightarrow> env \<Rightarrow> env" where
  "console_error msg e = e\<lparr>console := console e @ [msg]\<rparr>"

definition setItem :: "string \<Rightarrow> jsstring \<Rightarrow> env \<Rightarrow> env" where
  "setItem k v e = e\<lparr>sessionStorage := (sessionStorage e)(k \<mapsto> v)\<rparr>"

definition removeItem :: "string \<Rightarrow> env \<Rightarrow> env" where
  "removeItem k e = e\<lparr>sessionStorage := (sessionStorage e)(k := None)\<rparr>"

definition localStorage_setItem :: "blob \<Rightarrow> env \<Rightarrow> exn + env" where
  "localStorage_setItem b e =
     (if quota_exceeded e then Inl QuotaExceededError else Inr (e\<lparr>localStorage := Some b\<rparr>))"

definition CURRENT_USER_KEY :: string where
  "CURRENT_USER_KEY = ''lumi_current_user''"

text \<open>\<^verbatim>\<open>sessionStorage.getItem('lumi_use_local_only') === 'true'\<close>\<close>

definition useLocalOnly :: "env \<Rightarrow> bool" where
  "useLocalOnly e \<longleftrightarrow> sessionStorage e ''lumi_use_local_only'' = Some (js ''true'')"

subsection \<open>SupabaseStorageModel\<close>

record SupabaseConfig =
  isEnabled :: bool
  fallbackToLocalStorage :: bool
  cacheTimeout :: int

record cache_state =
  cache_users :: "(jsstring \<rightharpoonup> jsstring) option"
  cache_badges :: "(jsstring \<rightharpoonup> badge list) option"
  lastUpdate :: "int option"

text \<open>\<open>client = False\<close> is \<^verbatim>\<open>this.client === null\<close>.\<close>

record SupabaseStorageModel =
  config :: SupabaseConfig
  client :: bool
  currentUserId :: "jsstring option"
  cache :: cache_state

definition empty_cache :: cache_state where
  "empty_cache = \<lparr>cache_users = None, cache_badges = None, lastUpdate = None\<rparr>"

text \<open>
  The constructor with \<^verbatim>\<open>initializeClient\<close>; \<open>lib\<close> says whether the client library is
  loaded and creates a client.
\<close>

definition Supabase_new :: "SupabaseConfig \<Rightarrow> bool \<Rightarrow> SupabaseStorageModel" where
  "Supabase_new cfg lib =
     \<lparr>config = cfg, client = (isEnabled cfg \<and> lib), currentUserId = None, cache = empty_cache\<rparr>"

definition Supabase_isAvailable :: "SupabaseStorageModel \<Rightarrow> bool" where
  "Supabase_isAvailable s = client s"

text \<open>A string or \<^verbatim>\<open>null\<close> used as a condition.\<close>

definition truthy :: "jsstring option \<Rightarrow> bool" where
  "truthy v = (case v of None \<Rightarrow> False | Some x \<Rightarrow> x \<noteq> [])"

definition isCacheValid :: "SupabaseStorageModel \<Rightarrow> int \<Rightarrow> bool" where
  "isCacheValid s now =
     (case lastUpdate (cache s) of
        None \<Rightarrow> False
      | Some t \<Rightarrow> if t = 0 then False else now - t < cacheTimeout (config s))"

definition updateCache_users ::
  "SupabaseStorageModel \<Rightarrow> int \<Rightarrow> jsstring \<Rightarrow> jsstring \<Rightarrow> SupabaseStorageModel" where
  "updateCache_users s now key v =
     s\<lparr>cache := (cache s)
        \<lparr>cache_users :=
           Some ((case cache_users (cache s) of None \<Rightarrow> Map.empty | Some m \<Rightarrow> m)(key \<mapsto> v)),
         lastUpdate := Some now\<rparr>\<rparr>"

definition updateCache_badges ::
  "SupabaseStorageModel \<Rightarrow> int \<Rightarrow> jsstring \<Rightarrow> badge list \<Rightarrow> SupabaseStorageModel" where
  "updateCache_badges s now key v =
     s\<lparr>cache := (cache s)
        \<lparr>cache_badges :=
           Some ((case cache_badges (cache s) of None \<Rightarrow> Map.empty | Some m \<Rightarrow> m)(key \<mapsto> v)),
         lastUpdate := Some now\<rparr>\<rparr>"

definition clearCache :: "SupabaseStorageModel \<Rightarrow> SupabaseStorageModel" where
  "clearCache s = s\<lparr>cache := empty_cache\<rparr>"

definition getAllUsersFromLocalStorage :: "env \<Rightarrow> users \<times> env" where
  "getAllUsersFromLocalStorage e =
     (case localStorage e of
        None \<Rightarrow> (Map.empty, e)
      | Some usersData \<Rightarrow>
          if falsy_text usersData then (Map.empty, e)
          else case JSON_parse usersData of
                 Inl _ \<Rightarrow> (Map.empty, console_error ''Error parsing users data:'' e)
               | Inr us \<Rightarrow> (us, e))"

text \<open>\<^verbatim>\<open>typeof badge === 'string' ? { name: badge, emoji: '', earnedAt: '' } : badge\<close>\<close>

definition to_badge :: "stored_badge \<Rightarrow> badge" where
  "to_badge b = (case b of Legacy s \<Rightarrow> \<lparr>name = s, emoji = [], earnedAt = None\<rparr> | Obj x \<Rightarrow> x)"

definition badges_or_empty :: "user_data \<Rightarrow> stored_badge list" where
  "badges_or_empty d = (case badges d of None \<Rightarrow> [] | Some bs \<Rightarrow> bs)"

definition push_badge :: "user_data \<Rightarrow> jsstring \<Rightarrow> jsstring \<Rightarrow> int \<Rightarrow> user_data" where
  "push_badge d badgeName badgeEmoji now =
     d\<lparr>badges := Some (badges_or_empty d @
        [Obj \<lparr>name = badgeName, emoji = badgeEmoji, earnedAt = Some now\<rparr>])\<rparr>"

definition addBadgeToLocalStorage ::
  "env \<Rightarrow> int \<Rightarrow> jsstring \<Rightarrow> jsstring \<Rightarrow> jsstring \<Rightarrow> (exn + bool) \<times> env" where
  "addBadgeToLocalStorage e now username badgeName badgeEmoji =
     (case getAllUsersFromLocalStorage e of (us, e1) \<Rightarrow>
        let d = (case us username of
                   None \<Rightarrow> \<lparr>badges = Some [], createdAt = now\<rparr>
                 | Some d0 \<Rightarrow> d0);
            us1 = us(username \<mapsto> push_badge d badgeName badgeEmoji now)
        in case localStorage_setItem (JSON_stringify us1) e1 of
             Inl x \<Rightarrow> (Inl x, e1)
           | Inr e2 \<Rightarrow> (Inr True, e2))"

definition getBadgesFromLocalStorage :: "env \<Rightarrow> jsstring \<Rightarrow> badge list \<times> env" where
  "getBadgesFromLocalStorage e username =
     (case getAllUsersFromLocalStorage e of (us, e1) \<Rightarrow>
        case us username of
          None \<Rightarrow> ([], e1)
        | Some userData \<Rightarrow>
            (case badges userData of
               None \<Rightarrow> ([], e1)
             | Some bs \<Rightarrow> (map to_badge bs, e1)))"

definition cached_id :: "SupabaseStorageModel \<Rightarrow> int \<Rightarrow> jsstring \<Rightarrow> jsstring option" where
  "cached_id s now username =
     (if isCacheValid s now
      then (case cache_users (cache s) of None \<Rightarrow> None | Some m \<Rightarrow> m username)
      else None)"

definition Supabase_getUserId_try ::
  "SupabaseStorageModel \<Rightarrow> env \<Rightarrow> int \<Rightarrow> jsstring \<Rightarrow>
   (exn + jsstring option) \<times> SupabaseStorageModel \<times> env" where
  "Supabase_getUserId_try s e now username =
     (if truthy (cached_id s now username) then (Inr (cached_id s now username), s, e)
      else if \<not> client s then (Inl TypeError, s, e)
      else case select_user_id (remote e) username of
             (Error err, r1) \<Rightarrow>
               if err = PGRST116 then (Inr None, s, e\<lparr>remote := r1\<rparr>)
               else (Inl (Failure err), s, e\<lparr>remote := r1\<rparr>)
           | (Data uid, r1) \<Rightarrow>
               (Inr (Some uid), updateCache_users s now username uid, e\<lparr>remote := r1\<rparr>))"

definition Supabase_getUserId ::
  "SupabaseStorageModel \<Rightarrow> env \<Rightarrow> int \<Rightarrow> jsstring \<Rightarrow>
   jsstring option \<times> SupabaseStorageModel \<times> env" where
  "Supabase_getUserId s e now username =
     (case Supabase_getUserId_try s e now username of
        (Inr v, s1, e1) \<Rightarrow> (v, s1, e1)
      | (Inl _, s1, e1) \<Rightarrow> (None, s1, console_error ''Error getting user ID:'' e1))"

definition Supabase_addBadge_try ::
  "SupabaseStorageModel \<Rightarrow> env \<Rightarrow> int \<Rightarrow> jsstring \<Rightarrow> jsstring \<Rightarrow> jsstring \<Rightarrow>
   (exn + bool) \<times> SupabaseStorageModel \<times> env" where
  "Supabase_addBadge_try s e now username badgeName badgeEmoji =
     (case Supabase_getUserId s e now username of (userId, s1, e1) \<Rightarrow>
        case userId of
          None \<Rightarrow> (Inl UserNotFound, s1, e1)
        | Some uid \<Rightarrow>
            if uid = [] then (Inl UserNotFound, s1, e1)
            else if \<not> client s1 then (Inl TypeError, s1, e1)
            else case insert_badge (remote e1)
                        \<lparr>user_id = uid, badge_name = badgeName, badge_emoji = badgeEmoji,
                         earned_at = now\<rparr> of
                   (Error err, r1) \<Rightarrow> (Inl (Failure err), s1, e1\<lparr>remote := r1\<rparr>)
                 | (Data _, r1) \<Rightarrow> (Inr True, clearCache s1, e1\<lparr>remote := r1\<rparr>))"

text \<open>The default of \<^verbatim>\<open>badgeEmoji\<close> is the star U+2B50.\<close>

definition Supabase_addBadge_catch ::
  "SupabaseStorageModel \<Rightarrow> env \<Rightarrow> int \<Rightarrow> jsstring \<Rightarrow> jsstring \<Rightarrow> jsstring \<Rightarrow>
   (exn + bool) \<times> SupabaseStorageModel \<times> env" where
  "Supabase_addBadge_catch s e now username badgeName badgeEmoji =
     (let e1 = console_error ''Error adding badge:'' e in
      if fallbackToLocalStorage (config s)
      then (case addBadgeToLocalStorage e1 now username badgeName badgeEmoji of
              (res, e2) \<Rightarrow> (res, s, e2))
      else (Inr False, s, e1))"

definition Supabase_addBadge ::
  "SupabaseStorageModel \<Rightarrow> env \<Rightarrow> int \<Rightarrow> jsstring \<Rightarrow> jsstring \<Rightarrow> jsstring option \<Rightarrow>
   (exn + bool) \<times> SupabaseStorageModel \<times> env" where
  "Supabase_addBadge s e now username badgeName badgeEmoji =
     (let em = (case badgeEmoji of None \<Rightarrow> [11088] | Some x \<Rightarrow> x) in
      case Supabase_addBadge_try s e now username badgeName em of
        (Inr b, s1, e1) \<Rightarrow> (Inr b, s1, e1)
      | (Inl _, s1, e1) \<Rightarrow> Supabase_addBadge_catch s1 e1 now username badgeName em)"

definition cached_badges ::
  "SupabaseStorageModel \<Rightarrow> int \<Rightarrow> jsstring \<Rightarrow> badge list option" where
  "cached_badges s now username =
     (if isCacheValid s now
      then (case cache_badges (cache s) of None \<Rightarrow> None | Some m \<Rightarrow> m username)
      else None)"

definition row_badge :: "badge_row \<Rightarrow> badge" where
  "row_badge row =
     \<lparr>name = badge_name row, emoji = badge_emoji row, earnedAt = Some (earned_at row)\<rparr>"

definition Supabase_getBadges_try ::
  "SupabaseStorageModel \<Rightarrow> env \<Rightarrow> int \<Rightarrow> jsstring \<Rightarrow>
   (exn + badge list) \<times> SupabaseStorageModel \<times> env" where
  "Supabase_getBadges_try s e now username =
     (case cached_badges s now username of
        Some cachedBadges \<Rightarrow> (Inr cachedBadges, s, e)
      | None \<Rightarrow>
          (case Supabase_getUserId s e now username of (userId, s1, e1) \<Rightarrow>
             case userId of
               None \<Rightarrow> (Inr [], s1, e1)
             | Some uid \<Rightarrow>
                 if uid = [] then (Inr [], s1, e1)
                 else if \<not> client s1 then (Inl TypeError, s1, e1)
                 else case select_badges (remote e1) uid of
                        (Error err, r1) \<Rightarrow> (Inl (Failure err), s1, e1\<lparr>remote := r1\<rparr>)
                      | (Data rows, r1) \<Rightarrow>
                          (Inr (map row_badge rows),
                           updateCache_badges s1 now username (map row_badge rows),
                           e1\<lparr>remote := r1\<rparr>)))"

definition Supabase_getBadges_catch ::
  "SupabaseStorageModel \<Rightarrow> env \<Rightarrow> jsstring \<Rightarrow> badge list \<times> SupabaseStorageModel \<times> env" where
  "Supabase_getBadges_catch s e username =
     (let e1 = console_error ''Error getting badges:'' e in
      if fallbackToLocalStorage (config s)
      then (case getBadgesFromLocalStorage e1 username of (bs, e2) \<Rightarrow> (bs, s, e2))
      else ([], s, e1))"

definition Supabase_getBadges ::
  "SupabaseStorageModel \<Rightarrow> env \<Rightarrow> int \<Rightarrow> jsstring \<Rightarrow>
   badge list \<times> SupabaseStorageModel \<times> env" where
  "Supabase_getBadges s e now username =
     (case Supabase_getBadges_try s e now username of
        (Inr bs, s1, e1) \<Rightarrow> (bs, s1, e1)
      | (Inl _, s1, e1) \<Rightarrow> Supabase_getBadges_catch s1 e1 username)"

definition Supabase_getBadgeCount ::
  "SupabaseStorageModel \<Rightarrow> env \<Rightarrow> int \<Rightarrow> jsstring \<Rightarrow> nat \<times> SupabaseStorageModel \<times> env" where
  "Supabase_getBadgeCount s e now username =
     (case Supabase_getBadges s e now username of (bs, s1, e1) \<Rightarrow> (length bs, s1, e1))"

text \<open>
  \<^verbatim>\<open>`${trimmedUsername.toLowerCase().replace(/\s+/g, '_')}@lumi.local`\<close>
\<close>

definition email_of :: "env \<Rightarrow> jsstring \<Rightarrow> jsstring" where
  "email_of e trimmedUsername = replace_ws (toLowerCase e trimmedUsername) @ js ''@lumi.local''"

text \<open>
  Sign in; on an error whose message has \<^verbatim>\<open>Invalid login credentials\<close> sign up instead;
  any other error is thrown.
\<close>

definition signIn_or_signUp ::
  "remote \<Rightarrow> jsstring \<Rightarrow> jsstring \<Rightarrow> (exn + jsstring option) \<times> remote" where
  "signIn_or_signUp r email password =
     (case signInWithPassword r email password of
        (Data u, r1) \<Rightarrow> (Inr u, r1)
      | (Error err, r1) \<Rightarrow>
          if err = InvalidLoginCredentials
          then (case signUp r1 email password of
                  (Data u, r2) \<Rightarrow> (Inr u, r2)
                | (Error err2, r2) \<Rightarrow> (Inl (Failure err2), r2))
          else (Inl (Failure err), r1))"

definition Supabase_setCurrentUser_password_try ::
  "SupabaseStorageModel \<Rightarrow> env \<Rightarrow> jsstring \<Rightarrow> jsstring \<Rightarrow>
   (exn + bool) \<times> SupabaseStorageModel \<times> env" where
  "Supabase_setCurrentUser_password_try s e trimmedUsername password =
     (if \<not> client s then (Inl TypeError, s, e)
      else case signIn_or_signUp (remote e) (email_of e trimmedUsername) password of
             (Inl x, r2) \<Rightarrow> (Inl x, s, e\<lparr>remote := r2\<rparr>)
           | (Inr None, r2) \<Rightarrow> (Inr False, s, e\<lparr>remote := r2\<rparr>)
           | (Inr (Some authUser), r2) \<Rightarrow>
               (case getOrCreateUser r2 trimmedUsername of
                  (Error err, r3) \<Rightarrow> (Inl (Failure err), s, e\<lparr>remote := r3\<rparr>)
                | (Data d, r3) \<Rightarrow>
                    (Inr True, s\<lparr>currentUserId := Some d\<rparr>,
                     removeItem ''lumi_use_local_only''
                       (setItem ''lumi_auth_user'' authUser
                         (setItem ''lumi_user_id'' d
                           (setItem ''lumi_current_user'' trimmedUsername
                             (e\<lparr>remote := r3\<rparr>)))))))"

definition Supabase_setCurrentUser_try ::
  "SupabaseStorageModel \<Rightarrow> env \<Rightarrow> jsstring \<Rightarrow>
   (exn + bool) \<times> SupabaseStorageModel \<times> env" where
  "Supabase_setCurrentUser_try s e trimmedUsername =
     (if \<not> client s then (Inl TypeError, s, e)
      else case getOrCreateUser (remote e) trimmedUsername of
             (Error err, r1) \<Rightarrow> (Inl (Failure err), s, e\<lparr>remote := r1\<rparr>)
           | (Data d, r1) \<Rightarrow>
               (Inr True, s\<lparr>currentUserId := Some d\<rparr>,
                removeItem ''lumi_use_local_only''
                  (setItem ''lumi_user_id'' d
                    (setItem ''lumi_current_user'' trimmedUsername (e\<lparr>remote := r1\<rparr>)))))"

text \<open>The two \<^verbatim>\<open>catch\<close> blocks differ in the message only.\<close>

definition Supabase_setCurrentUser_catch ::
  "string \<Rightarrow> SupabaseStorageModel \<Rightarrow> env \<Rightarrow> jsstring \<Rightarrow> bool \<times> SupabaseStorageModel \<times> env" where
  "Supabase_setCurrentUser_catch msg s e trimmedUsername =
     (let e1 = console_error msg e in
      if fallbackToLocalStorage (config s)
      then (True, s,
            setItem ''lumi_use_local_only'' (js ''true'')
              (setItem ''lumi_current_user'' trimmedUsername e1))
      else (False, s, e1))"

definition Supabase_setCurrentUser ::
  "SupabaseStorageModel \<Rightarrow> env \<Rightarrow> jsstring \<Rightarrow> jsstring option \<Rightarrow>
   bool \<times> SupabaseStorageModel \<times> env" where
  "Supabase_setCurrentUser s e username password =
     (if blank username then (False, s, e)
      else if given password
      then (case Supabase_setCurrentUser_password_try s e (trim username)
                   (case password of None \<Rightarrow> [] | Some p \<Rightarrow> p) of
              (Inr b, s1, e1) \<Rightarrow> (b, s1, e1)
            | (Inl _, s1, e1) \<Rightarrow>
                Supabase_setCurrentUser_catch ''Error with password authentication:'' s1 e1
                  (trim username))
      else (case Supabase_setCurrentUser_try s e (trim username) of
              (Inr b, s1, e1) \<Rightarrow> (b, s1, e1)
            | (Inl _, s1, e1) \<Rightarrow>
                Supabase_setCurrentUser_catch ''Error setting current user:'' s1 e1 (trim username)))"

definition Supabase_logout :: "SupabaseStorageModel \<Rightarrow> env \<Rightarrow> SupabaseStorageModel \<times> env" where
  "Supabase_logout s e =
     (let s1 = clearCache (s\<lparr>currentUserId := None\<rparr>);
          e1 = removeItem ''lumi_use_local_only''
                 (removeItem ''lumi_auth_user''
                   (removeItem ''lumi_user_id'' (removeItem ''lumi_current_user'' e)))
      in if client s1
         then (case signOut (remote e1) of
                 (Data _, r1) \<Rightarrow> (s1, e1\<lparr>remote := r1\<rparr>)
               | (Error _, r1) \<Rightarrow> (s1, console_error ''Error signing out:'' (e1\<lparr>remote := r1\<rparr>)))
         else (s1, e1))"

subsection \<open>UserStorageModel\<close>

text \<open>\<open>supabaseStorage = None\<close> is \<^verbatim>\<open>this.supabaseStorage === null\<close>.\<close>

record UserStorageModel =
  supabaseStorage :: "SupabaseStorageModel option"

text \<open>The constructor; \<open>cfg = None\<close> when no class \<^verbatim>\<open>SupabaseConfig\<close> is defined.\<close>

definition User_new :: "SupabaseConfig option \<Rightarrow> bool \<Rightarrow> UserStorageModel" where
  "User_new cfg lib =
     \<lparr>supabaseStorage =
        (case cfg of
           None \<Rightarrow> None
         | Some c \<Rightarrow> if isEnabled c then Some (Supabase_new c lib) else None)\<rparr>"

text \<open>\<^verbatim>\<open>this.supabaseStorage && this.supabaseStorage.isAvailable()\<close>\<close>

definition available :: "UserStorageModel \<Rightarrow> bool" where
  "available f = (case supabaseStorage f of None \<Rightarrow> False | Some s \<Rightarrow> Supabase_isAvailable s)"

definition User_getCurrentUser :: "env \<Rightarrow> jsstring option" where
  "User_getCurrentUser e = sessionStorage e CURRENT_USER_KEY"

definition User_getAllUsers :: "env \<Rightarrow> users \<times> env" where
  "User_getAllUsers e =
     (case localStorage e of
        None \<Rightarrow> (Map.empty, e)
      | Some usersData \<Rightarrow>
          if falsy_text usersData then (Map.empty, e)
          else case JSON_parse usersData of
                 Inl _ \<Rightarrow> (Map.empty, console_error ''Error parsing users data:'' e)
               | Inr us \<Rightarrow> (us, e))"

definition User_saveAllUsers :: "env \<Rightarrow> users \<Rightarrow> bool \<times> env" where
  "User_saveAllUsers e us =
     (case localStorage_setItem (JSON_stringify us) e of
        Inr e1 \<Rightarrow> (True, e1)
      | Inl _ \<Rightarrow> (False, console_error ''Error saving users data:'' e))"

definition User_userExists :: "env \<Rightarrow> jsstring \<Rightarrow> bool \<times> env" where
  "User_userExists e username =
     (case User_getAllUsers e of (us, e1) \<Rightarrow> (us username \<noteq> None, e1))"

definition User_createUser :: "env \<Rightarrow> int \<Rightarrow> jsstring \<Rightarrow> bool \<times> env" where
  "User_createUser e now username =
     (case User_getAllUsers e of (us, e1) \<Rightarrow>
        User_saveAllUsers e1 (us(username \<mapsto> \<lparr>badges = Some [], createdAt = now\<rparr>)))"

definition User_getUserData :: "env \<Rightarrow> jsstring \<Rightarrow> user_data option \<times> env" where
  "User_getUserData e username =
     (case User_getAllUsers e of (us, e1) \<Rightarrow> (us username, e1))"

definition User_setCurrentUser ::
  "UserStorageModel \<Rightarrow> env \<Rightarrow> int \<Rightarrow> jsstring \<Rightarrow> jsstring option \<Rightarrow>
   bool \<times> UserStorageModel \<times> env" where
  "User_setCurrentUser f e now username password =
     (if blank username then (False, f, e)
      else case (if available f \<and> given password then supabaseStorage f else None) of
             Some s \<Rightarrow>
               (case Supabase_setCurrentUser s e (trim username) password of
                  (b, s1, e1) \<Rightarrow> (b, f\<lparr>supabaseStorage := Some s1\<rparr>, e1))
           | None \<Rightarrow>
               (let e1 = setItem ''lumi_use_local_only'' (js ''true'')
                           (setItem CURRENT_USER_KEY (trim username) e)
                in case User_userExists e1 (trim username) of (ex, e2) \<Rightarrow>
                     if \<not> ex then (True, f, snd (User_createUser e2 now (trim username)))
                     else (True, f, e2)))"

definition User_logout :: "UserStorageModel \<Rightarrow> env \<Rightarrow> UserStorageModel \<times> env" where
  "User_logout f e =
     (case (if available f then supabaseStorage f else None) of
        Some s \<Rightarrow> (case Supabase_logout s e of (s1, e1) \<Rightarrow> (f\<lparr>supabaseStorage := Some s1\<rparr>, e1))
      | None \<Rightarrow> (f, removeItem ''lumi_use_local_only'' (removeItem CURRENT_USER_KEY e)))"

text \<open>
  \<^verbatim>\<open>this.supabaseStorage && this.supabaseStorage.isAvailable() && !useLocalOnly\<close>: the model
  the call is passed to, if any.
\<close>

definition routed :: "UserStorageModel \<Rightarrow> env \<Rightarrow> SupabaseStorageModel option" where
  "routed f e = (if available f \<and> \<not> useLocalOnly e then supabaseStorage f else None)"

text \<open>The default of \<^verbatim>\<open>badgeEmoji\<close> is the empty string here.\<close>

definition User_addBadge ::
  "UserStorageModel \<Rightarrow> env \<Rightarrow> int \<Rightarrow> jsstring \<Rightarrow> jsstring \<Rightarrow> jsstring option \<Rightarrow>
   (exn + bool) \<times> UserStorageModel \<times> env" where
  "User_addBadge f e now username badgeName badgeEmoji =
     (let em = (case badgeEmoji of None \<Rightarrow> [] | Some x \<Rightarrow> x) in
      case routed f e of
        Some s \<Rightarrow>
          (case Supabase_addBadge s e now username badgeName (Some em) of
             (res, s1, e1) \<Rightarrow> (res, f\<lparr>supabaseStorage := Some s1\<rparr>, e1))
      | None \<Rightarrow>
          (case User_getAllUsers e of (us0, e0) \<Rightarrow>
             case (if us0 username = None
                   then User_getAllUsers (snd (User_createUser e0 now username))
                   else (us0, e0)) of (us, e1) \<Rightarrow>
               case us username of
                 None \<Rightarrow> (Inl TypeError, f, e1)
               | Some d \<Rightarrow>
                   (case User_saveAllUsers e1 (us(username \<mapsto> push_badge d badgeName em now)) of
                      (b, e2) \<Rightarrow> (Inr b, f, e2))))"

definition User_getBadges ::
  "UserStorageModel \<Rightarrow> env \<Rightarrow> int \<Rightarrow> jsstring \<Rightarrow> badge list \<times> UserStorageModel \<times> env" where
  "User_getBadges f e now username =
     (case routed f e of
        Some s \<Rightarrow>
          (case Supabase_getBadges s e now username of
             (bs, s1, e1) \<Rightarrow> (bs, f\<lparr>supabaseStorage := Some s1\<rparr>, e1))
      | None \<Rightarrow>
          (case User_getUserData e username of (userData, e1) \<Rightarrow>
             case userData of
               None \<Rightarrow> ([], f, e1)
             | Some d \<Rightarrow>
                 (case badges d of
                    None \<Rightarrow> ([], f, e1)
                  | Some bs \<Rightarrow> (map to_badge bs, f, e1))))"

definition User_getBadgeCount ::
  "UserStorageModel \<Rightarrow> env \<Rightarrow> int \<Rightarrow> jsstring \<Rightarrow> nat \<times> UserStorageModel \<times> env" where
  "User_getBadgeCount f e now username =
     (case routed f e of
        Some s \<Rightarrow>
          (case Supabase_getBadgeCount s e now username of
             (n, s1, e1) \<Rightarrow> (n, f\<lparr>supabaseStorage := Some s1\<rparr>, e1))
      | None \<Rightarrow>
          (case User_getBadges f e now username of (bs, f1, e1) \<Rightarrow> (length bs, f1, e1)))"

subsection \<open>DataMigrationUtil\<close>

text \<open>
  The utility holds a \<^verbatim>\<open>UserStorageModel\<close> and a \<^verbatim>\<open>SupabaseStorageModel\<close> of its own,
  two objects as the integration tests build them.
\<close>

record DataMigrationUtil =
  userStorage :: UserStorageModel
  util_supabaseStorage :: SupabaseStorageModel

datatype verify_message = Verified | Mismatch nat nat | VerificationFailed

record verification =
  success :: bool
  localCount :: "nat option"
  supabaseCount :: "nat option"
  message :: verify_message

text \<open>
  Neither \<^verbatim>\<open>getBadges\<close> lets an exception out, so the \<^verbatim>\<open>catch\<close> of
  \<^verbatim>\<open>verifyMigration\<close>, whose result has no counts, is never entered.
\<close>

definition verifyMigration ::
  "DataMigrationUtil \<Rightarrow> env \<Rightarrow> int \<Rightarrow> jsstring \<Rightarrow> verification \<times> DataMigrationUtil \<times> env" where
  "verifyMigration u e now username =
     (case User_getBadges (userStorage u) e now username of (localBadges, f1, e1) \<Rightarrow>
        case Supabase_getBadges (util_supabaseStorage u) e1 now username of
          (supabaseBadges, s1, e2) \<Rightarrow>
            (\<lparr>success = (length localBadges = length supabaseBadges),
              localCount = Some (length localBadges),
              supabaseCount = Some (length supabaseBadges),
              message = (if length localBadges = length supabaseBadges then Verified
                         else Mismatch (length localBadges) (length supabaseBadges))\<rparr>,
             \<lparr>userStorage = f1, util_supabaseStorage = s1\<rparr>, e2))"

subsection \<open>Sessions, store contents, and the scenarios of the examples\<close>

text \<open>
  A session after login is a sequence of badge operations, each at its own time, between
  which endpoints of the remote service may go down or come back.
\<close>

datatype session_op =
    AddBadge jsstring jsstring "jsstring option"
  | GetBadges jsstring
  | GetBadgeCount jsstring
  | Reachability "endpoint list"

fun session_step ::
  "UserStorageModel \<times> env \<Rightarrow> int \<times> session_op \<Rightarrow> UserStorageModel \<times> env" where
  "session_step (f, e) (now, AddBadge u n em) = snd (User_addBadge f e now u n em)"
| "session_step (f, e) (now, GetBadges u) = snd (User_getBadges f e now u)"
| "session_step (f, e) (now, GetBadgeCount u) = snd (User_getBadgeCount f e now u)"
| "session_step (f, e) (now, Reachability d) = (f, e\<lparr>remote := (remote e)\<lparr>down := d\<rparr>\<rparr>)"

definition run_session ::
  "UserStorageModel \<times> env \<Rightarrow> (int \<times> session_op) list \<Rightarrow> UserStorageModel \<times> env" where
  "run_session = foldl session_step"

text \<open>What the two stores hold for a user, whatever a model reads of it.\<close>

definition local_users :: "env \<Rightarrow> users" where
  "local_users e = (case localStorage e of Some (Stringified us) \<Rightarrow> us | _ \<Rightarrow> Map.empty)"

definition local_badges :: "env \<Rightarrow> jsstring \<Rightarrow> stored_badge list" where
  "local_badges e username =
     (case local_users e username of None \<Rightarrow> [] | Some d \<Rightarrow> badges_or_empty d)"

definition remote_badges :: "remote \<Rightarrow> jsstring \<Rightarrow> badge_row list" where
  "remote_badges r username =
     (case users_tbl r username of
        None \<Rightarrow> []
      | Some uid \<Rightarrow> filter (\<lambda>row. user_id row = uid) (badges_tbl r))"

text \<open>The row that \<^verbatim>\<open>addBadge\<close> inserts for the user with id \<open>uid\<close>.\<close>

definition new_row :: "jsstring \<Rightarrow> jsstring \<Rightarrow> jsstring \<Rightarrow> int \<Rightarrow> badge_row" where
  "new_row uid n em now = \<lparr>user_id = uid, badge_name = n, badge_emoji = em, earned_at = now\<rparr>"

text \<open>
  The cache agrees with the users table about a user: a usable cached id is the id of
  the table.
\<close>

definition id_coherent :: "SupabaseStorageModel \<Rightarrow> env \<Rightarrow> int \<Rightarrow> jsstring \<Rightarrow> bool" where
  "id_coherent s e now username \<longleftrightarrow>
     (truthy (cached_id s now username) \<longrightarrow>
      cached_id s now username = users_tbl (remote e) username)"

text \<open>The configuration of the integration tests, with a timeout of five minutes.\<close>

definition cfg0 :: SupabaseConfig where
  "cfg0 = \<lparr>isEnabled = True, fallbackToLocalStorage = True, cacheTimeout = 300000\<rparr>"

definition model0 :: SupabaseStorageModel where
  "model0 = Supabase_new cfg0 True"

definition facade0 :: UserStorageModel where
  "facade0 = User_new (Some cfg0) True"

definition remote0 :: remote where
  "remote0 = \<lparr>users_tbl = Map.empty, badges_tbl = [], accounts = Map.empty, next_id = 0,
              down = [], callLog = []\<rparr>"

definition env0 :: env where
  "env0 = \<lparr>sessionStorage = Map.empty, localStorage = None, quota_exceeded = False,
           remote = remote0, console = [], toLowerCase = (\<lambda>s. s)\<rparr>"

definition Ivan :: jsstring where
  "Ivan = js ''Ivan''"

definition id1 :: jsstring where
  "id1 = js ''id-1''"

definition Star :: badge where
  "Star = \<lparr>name = js ''Star'', emoji = [11088], earnedAt = Some 500\<rparr>"

text \<open>Ivan is registered remotely and has no badge there.\<close>

definition env_Ivan :: env where
  "env_Ivan = env0\<lparr>remote := remote0\<lparr>users_tbl := [Ivan \<mapsto> id1]\<rparr>\<rparr>"

text \<open>Ivan has one badge in the local store.\<close>

definition users_Ivan :: users where
  "users_Ivan = [Ivan \<mapsto> \<lparr>badges = Some [Obj Star], createdAt = 400\<rparr>]"

definition unreachable :: "endpoint list \<Rightarrow> env \<Rightarrow> env" where
  "unreachable d e = e\<lparr>remote := (remote e)\<lparr>down := d\<rparr>\<rparr>"

text \<open>
  The id of Ivan is looked up at time 1000, his badges four minutes later, his id again
  six minutes after the first lookup.
\<close>

definition warm1 :: "jsstring option \<times> SupabaseStorageModel \<times> env" where
  "warm1 = Supabase_getUserId model0 env_Ivan 1000 Ivan"

definition warm2 :: "badge list \<times> SupabaseStorageModel \<times> env" where
  "warm2 = Supabase_getBadges (fst (snd warm1)) (snd (snd warm1)) 241000 Ivan"

definition late_read :: "jsstring option \<times> SupabaseStorageModel \<times> env" where
  "late_read = Supabase_getUserId (fst (snd warm2)) (snd (snd warm2)) 361000 Ivan"

text \<open>
  The badges of Ivan are read and cached; then a badge is added while inserts fail, and the
  badges are read again, all within five minutes.
\<close>

definition cached_read :: "badge list \<times> SupabaseStorageModel \<times> env" where
  "cached_read = Supabase_getBadges model0 env_Ivan 1000 Ivan"

definition fallback_add :: "(exn + bool) \<times> SupabaseStorageModel \<times> env" where
  "fallback_add =
     Supabase_addBadge (fst (snd cached_read)) (unreachable [BadgesInsert] (snd (snd cached_read)))
       2000 Ivan (js ''Star'') (Some [11088])"

definition read_after :: "badge list \<times> SupabaseStorageModel \<times> env" where
  "read_after = Supabase_getBadges (fst (snd fallback_add)) (snd (snd fallback_add)) 3000 Ivan"

text \<open>The same through the facade, with nothing cached before.\<close>

definition facade_add :: "(exn + bool) \<times> UserStorageModel \<times> env" where
  "facade_add =
     User_addBadge facade0 (unreachable [BadgesInsert] env_Ivan) 1000 Ivan (js ''Star'')
       (Some [11088])"

definition facade_read :: "badge list \<times> UserStorageModel \<times> env" where
  "facade_read = User_getBadges (fst (snd facade_add)) (snd (snd facade_add)) 1000 Ivan"

text \<open>Ivan has one badge locally and none remotely, and the badge query fails.\<close>

definition util0 :: DataMigrationUtil where
  "util0 = \<lparr>userStorage = User_new None False, util_supabaseStorage = model0\<rparr>"

definition env_split :: env where
  "env_split = (unreachable [BadgesSelect] env_Ivan)\<lparr>localStorage := Some (Stringified users_Ivan)\<rparr>"

definition verify_split :: "verification \<times> DataMigrationUtil \<times> env" where
  "verify_split = verifyMigration util0 env_split 1000 Ivan"

text \<open>Ivan, who has a badge in the local store, is created again.\<close>

definition env_local :: env where
  "env_local = env0\<lparr>localStorage := Some (Stringified users_Ivan)\<rparr>"

definition recreate :: "bool \<times> env" where
  "recreate = User_createUser env_local 1000 Ivan"

text \<open>
  A login with a password while sign-in fails, and a session in which the remote service is
  reachable again.
\<close>

definition login_fallback :: "bool \<times> UserStorageModel \<times> env" where
  "login_fallback =
     User_setCurrentUser facade0 (unreachable [SignIn] env0) 1000 (js '' Ivan '')
       (Some (js ''secret''))"

definition session1 :: "(int \<times> session_op) list" where
  "session1 =
     [(2000, Reachability []), (3000, AddBadge Ivan (js ''Star'') None),
      (4000, GetBadges Ivan), (5000, GetBadgeCount Ivan)]"

text \<open>A session with all four keys set.\<close>

definition env_session :: env where
  "env_session =
     env_Ivan\<lparr>sessionStorage :=
       [''lumi_current_user'' \<mapsto> Ivan, ''lumi_user_id'' \<mapsto> id1, ''lumi_auth_user'' \<mapsto> id1,
        ''lumi_use_local_only'' \<mapsto> js ''true'']\<rparr>"

text \<open>The local store holds a text that is no JSON.\<close>

definition env_corrupt :: env where
  "env_corrupt = env0\<lparr>localStorage := Some (Unparsable (js ''invalid json''))\<rparr>"

text \<open>Ivan has one badge locally and none remotely, and the remote service is reachable.\<close>

definition env_both :: env where
  "env_both = env_Ivan\<lparr>localStorage := Some (Stringified users_Ivan)\<rparr>"

text \<open>Ivan has earned one badge remotely, at time 500.\<close>

definition env_earned :: env where
  "env_earned =
     env0\<lparr>remote := remote0\<lparr>users_tbl := [Ivan \<mapsto> id1],
       badges_tbl := [\<lparr>user_id = id1, badge_name = js ''Star'', badge_emoji = [11088],
                       earned_at = 500\<rparr>]\<rparr>\<rparr>"



section \<open>Properties\<close>

subsection \<open>Evaluation of the scenarios\<close>

lemmas model_defs =
  js_def is_ws_def trim_def blank_def given_def JSON_parse_def JSON_stringify_def falsy_text_def
  mk_id_def logged_def getOrCreateUser_def select_user_id_def insert_badge_def select_badges_def
  signInWithPassword_def signUp_def signOut_def console_error_def setItem_def removeItem_def
  localStorage_setItem_def CURRENT_USER_KEY_def useLocalOnly_def empty_cache_def Supabase_new_def
  Supabase_isAvailable_def truthy_def isCacheValid_def updateCache_users_def
  updateCache_badges_def clearCache_def getAllUsersFromLocalStorage_def to_badge_def
  badges_or_empty_def push_badge_def addBadgeToLocalStorage_def getBadgesFromLocalStorage_def
  cached_id_def Supabase_getUserId_try_def Supabase_getUserId_def Supabase_addBadge_try_def
  Supabase_addBadge_catch_def Supabase_addBadge_def cached_badges_def row_badge_def
  Supabase_getBadges_try_def Supabase_getBadges_catch_def Supabase_getBadges_def
  Supabase_getBadgeCount_def email_of_def signIn_or_signUp_def
  Supabase_setCurrentUser_password_try_def Supabase_setCurrentUser_try_def
  Supabase_setCurrentUser_catch_def Supabase_setCurrentUser_def Supabase_logout_def User_new_def
  available_def User_getCurrentUser_def User_getAllUsers_def User_saveAllUsers_def
  User_userExists_def User_createUser_def User_getUserData_def User_setCurrentUser_def
  User_logout_def routed_def User_addBadge_def User_getBadges_def User_getBadgeCount_def
  verifyMigration_def run_session_def local_users_def local_badges_def remote_badges_def
  new_row_def id_coherent_def cfg0_def model0_def facade0_def remote0_def env0_def Ivan_def
  id1_def Star_def env_Ivan_def users_Ivan_def unreachable_def warm1_def warm2_def
  late_read_def cached_read_def fallback_add_def read_after_def facade_add_def facade_read_def
  util0_def env_split_def verify_split_def env_local_def recreate_def login_fallback_def
  session1_def env_session_def env_corrupt_def env_both_def env_earned_def

subsection \<open>Blank user names\<close>

lemma blank_iff: "blank s \<longleftrightarrow> (\<forall>c\<in>set s. is_ws c)"
proof -
  have "trim s = [] \<longleftrightarrow> (\<forall>c\<in>set (dropWhile is_ws s). is_ws c)"
    by (simp add: trim_def dropWhile_eq_Nil_conv)
  also have "\<dots> \<longleftrightarrow> dropWhile is_ws s = []"
  proof
    assume a: "\<forall>c\<in>set (dropWhile is_ws s). is_ws c"
    show "dropWhile is_ws s = []"
    proof (rule ccontr)
      assume n: "dropWhile is_ws s \<noteq> []"
      then have "\<not> is_ws (hd (dropWhile is_ws s))" by (rule hd_dropWhile)
      moreover have "hd (dropWhile is_ws s) \<in> set (dropWhile is_ws s)" using n by simp
      ultimately show False using a by blast
    qed
  qed (auto dest: set_dropWhileD)
  also have "\<dots> \<longleftrightarrow> (\<forall>c\<in>set s. is_ws c)"
    by (simp add: dropWhile_eq_Nil_conv)
  finally have "trim s = [] \<longleftrightarrow> (\<forall>c\<in>set s. is_ws c)" .
  then show ?thesis by (auto simp: blank_def)
qed

subsection \<open>getUserId, case by case\<close>

lemma getUserId_cached:
  "truthy (cached_id s now u) \<Longrightarrow> Supabase_getUserId s e now u = (cached_id s now u, s, e)"
  by (simp add: Supabase_getUserId_def Supabase_getUserId_try_def)

lemma getUserId_noclient:
  "\<not> truthy (cached_id s now u) \<Longrightarrow> \<not> client s \<Longrightarrow>
   Supabase_getUserId s e now u = (None, s, console_error ''Error getting user ID:'' e)"
  by (simp add: Supabase_getUserId_def Supabase_getUserId_try_def)

lemma getUserId_down:
  "\<not> truthy (cached_id s now u) \<Longrightarrow> client s \<Longrightarrow> UsersSelect \<in> set (down (remote e)) \<Longrightarrow>
   Supabase_getUserId s e now u =
     (None, s, console_error ''Error getting user ID:'' (e\<lparr>remote := logged UsersSelect (remote e)\<rparr>))"
  by (simp add: Supabase_getUserId_def Supabase_getUserId_try_def select_user_id_def Let_def)

lemma getUserId_missing:
  "\<not> truthy (cached_id s now u) \<Longrightarrow> client s \<Longrightarrow> UsersSelect \<notin> set (down (remote e)) \<Longrightarrow>
   users_tbl (remote e) u = None \<Longrightarrow>
   Supabase_getUserId s e now u = (None, s, e\<lparr>remote := logged UsersSelect (remote e)\<rparr>)"
  by (simp add: Supabase_getUserId_def Supabase_getUserId_try_def select_user_id_def Let_def)

lemma getUserId_found:
  "\<not> truthy (cached_id s now u) \<Longrightarrow> client s \<Longrightarrow> UsersSelect \<notin> set (down (remote e)) \<Longrightarrow>
   users_tbl (remote e) u = Some uid \<Longrightarrow>
   Supabase_getUserId s e now u =
     (Some uid, updateCache_users s now u uid, e\<lparr>remote := logged UsersSelect (remote e)\<rparr>)"
  by (simp add: Supabase_getUserId_def Supabase_getUserId_try_def select_user_id_def Let_def)

lemma getUserId_cases [case_names cached noclient down missing found]:
  assumes "truthy (cached_id s now u) \<Longrightarrow> Supabase_getUserId s e now u = (cached_id s now u, s, e) \<Longrightarrow> P"
    and "\<not> truthy (cached_id s now u) \<Longrightarrow> \<not> client s \<Longrightarrow>
         Supabase_getUserId s e now u = (None, s, console_error ''Error getting user ID:'' e) \<Longrightarrow> P"
    and "\<not> truthy (cached_id s now u) \<Longrightarrow> client s \<Longrightarrow> UsersSelect \<in> set (down (remote e)) \<Longrightarrow>
         Supabase_getUserId s e now u =
           (None, s, console_error ''Error getting user ID:''
                       (e\<lparr>remote := logged UsersSelect (remote e)\<rparr>)) \<Longrightarrow> P"
    and "\<not> truthy (cached_id s now u) \<Longrightarrow> client s \<Longrightarrow> UsersSelect \<notin> set (down (remote e)) \<Longrightarrow>
         users_tbl (remote e) u = None \<Longrightarrow>
         Supabase_getUserId s e now u = (None, s, e\<lparr>remote := logged UsersSelect (remote e)\<rparr>) \<Longrightarrow> P"
    and "\<And>uid. \<not> truthy (cached_id s now u) \<Longrightarrow> client s \<Longrightarrow>
         UsersSelect \<notin> set (down (remote e)) \<Longrightarrow> users_tbl (remote e) u = Some uid \<Longrightarrow>
         Supabase_getUserId s e now u =
           (Some uid, updateCache_users s now u uid,
            e\<lparr>remote := logged UsersSelect (remote e)\<rparr>) \<Longrightarrow> P"
  shows P
proof (cases "truthy (cached_id s now u)")
  case True
  then show ?thesis using assms(1) getUserId_cached by blast
next
  case nc: False
  show ?thesis
  proof (cases "client s")
    case False
    then show ?thesis using nc assms(2) getUserId_noclient by blast
  next
    case cl: True
    show ?thesis
    proof (cases "UsersSelect \<in> set (down (remote e))")
      case True
      then show ?thesis using nc cl assms(3) getUserId_down by blast
    next
      case up: False
      show ?thesis
      proof (cases "users_tbl (remote e) u")
        case None
        then show ?thesis using nc cl up assms(4) getUserId_missing by blast
      next
        case (Some uid)
        then show ?thesis using nc cl up assms(5) getUserId_found by blast
      qed
    qed
  qed
qed

text \<open>What no lookup changes.\<close>

lemma getUserId_frame:
  "client (fst (snd (Supabase_getUserId s e now u))) = client s \<and>
   config (fst (snd (Supabase_getUserId s e now u))) = config s \<and>
   sessionStorage (snd (snd (Supabase_getUserId s e now u))) = sessionStorage e \<and>
   localStorage (snd (snd (Supabase_getUserId s e now u))) = localStorage e \<and>
   quota_exceeded (snd (snd (Supabase_getUserId s e now u))) = quota_exceeded e \<and>
   users_tbl (remote (snd (snd (Supabase_getUserId s e now u)))) = users_tbl (remote e) \<and>
   badges_tbl (remote (snd (snd (Supabase_getUserId s e now u)))) = badges_tbl (remote e) \<and>
   accounts (remote (snd (snd (Supabase_getUserId s e now u)))) = accounts (remote e) \<and>
   down (remote (snd (snd (Supabase_getUserId s e now u)))) = down (remote e)"
  by (rule getUserId_cases [of s now u e])
     (simp_all add: console_error_def logged_def updateCache_users_def)




subsection \<open>getBadges, case by case\<close>

lemma getBadges_cached:
  "cached_badges s now u = Some bs \<Longrightarrow> Supabase_getBadges s e now u = (bs, s, e)"
  by (simp add: Supabase_getBadges_def Supabase_getBadges_try_def)

lemma getBadges_nouser:
  "cached_badges s now u = None \<Longrightarrow> Supabase_getUserId s e now u = (v, s1, e1) \<Longrightarrow>
   \<not> truthy v \<Longrightarrow> Supabase_getBadges s e now u = ([], s1, e1)"
  by (auto simp: Supabase_getBadges_def Supabase_getBadges_try_def truthy_def split: option.splits)

lemma getBadges_remote:
  "cached_badges s now u = None \<Longrightarrow> Supabase_getUserId s e now u = (Some uid, s1, e1) \<Longrightarrow>
   uid \<noteq> [] \<Longrightarrow> client s1 \<Longrightarrow> BadgesSelect \<notin> set (down (remote e1)) \<Longrightarrow>
   Supabase_getBadges s e now u =
     (map row_badge (sort_key earned_at (filter (\<lambda>row. user_id row = uid) (badges_tbl (remote e1)))),
      updateCache_badges s1 now u
        (map row_badge (sort_key earned_at (filter (\<lambda>row. user_id row = uid) (badges_tbl (remote e1))))),
      e1\<lparr>remote := logged BadgesSelect (remote e1)\<rparr>)"
  by (simp add: Supabase_getBadges_def Supabase_getBadges_try_def select_badges_def Let_def)

lemma getBadges_failed:
  "cached_badges s now u = None \<Longrightarrow> Supabase_getUserId s e now u = (Some uid, s1, e1) \<Longrightarrow>
   uid \<noteq> [] \<Longrightarrow> client s1 \<Longrightarrow> BadgesSelect \<in> set (down (remote e1)) \<Longrightarrow>
   Supabase_getBadges s e now u =
     Supabase_getBadges_catch s1 (e1\<lparr>remote := logged BadgesSelect (remote e1)\<rparr>) u"
  by (simp add: Supabase_getBadges_def Supabase_getBadges_try_def select_badges_def Let_def
      Supabase_getBadges_catch_def split: prod.splits)

lemma getBadges_noclient:
  "cached_badges s now u = None \<Longrightarrow> Supabase_getUserId s e now u = (Some uid, s1, e1) \<Longrightarrow>
   uid \<noteq> [] \<Longrightarrow> \<not> client s1 \<Longrightarrow>
   Supabase_getBadges s e now u = Supabase_getBadges_catch s1 e1 u"
  by (simp add: Supabase_getBadges_def Supabase_getBadges_try_def Let_def
      Supabase_getBadges_catch_def split: prod.splits)

text \<open>Reading the local store changes the console at most.\<close>

lemma getAllUsersFromLocalStorage_frame:
  "sessionStorage (snd (getAllUsersFromLocalStorage e)) = sessionStorage e \<and>
   localStorage (snd (getAllUsersFromLocalStorage e)) = localStorage e \<and>
   quota_exceeded (snd (getAllUsersFromLocalStorage e)) = quota_exceeded e \<and>
   remote (snd (getAllUsersFromLocalStorage e)) = remote e"
  by (simp add: getAllUsersFromLocalStorage_def console_error_def split: option.splits sum.splits)

lemma getBadgesFromLocalStorage_frame:
  "sessionStorage (snd (getBadgesFromLocalStorage e u)) = sessionStorage e \<and>
   localStorage (snd (getBadgesFromLocalStorage e u)) = localStorage e \<and>
   quota_exceeded (snd (getBadgesFromLocalStorage e u)) = quota_exceeded e \<and>
   remote (snd (getBadgesFromLocalStorage e u)) = remote e"
  using getAllUsersFromLocalStorage_frame [of e]
  by (auto simp: getBadgesFromLocalStorage_def split: prod.splits option.splits)

lemma getBadges_catch_frame:
  "fst (snd (Supabase_getBadges_catch s1 e1 u)) = s1 \<and>
   sessionStorage (snd (snd (Supabase_getBadges_catch s1 e1 u))) = sessionStorage e1 \<and>
   localStorage (snd (snd (Supabase_getBadges_catch s1 e1 u))) = localStorage e1 \<and>
   quota_exceeded (snd (snd (Supabase_getBadges_catch s1 e1 u))) = quota_exceeded e1 \<and>
   remote (snd (snd (Supabase_getBadges_catch s1 e1 u))) = remote e1"
  using getBadgesFromLocalStorage_frame [of "console_error ''Error getting badges:'' e1" u]
  by (auto simp: Supabase_getBadges_catch_def console_error_def Let_def split: prod.splits)

lemma getBadges_cases [case_names cached nouser remote failed noclient]:
  assumes "\<And>bs. cached_badges s now u = Some bs \<Longrightarrow> Supabase_getBadges s e now u = (bs, s, e) \<Longrightarrow> P"
    and "\<And>v s1 e1. cached_badges s now u = None \<Longrightarrow> Supabase_getUserId s e now u = (v, s1, e1) \<Longrightarrow>
           \<not> truthy v \<Longrightarrow> Supabase_getBadges s e now u = ([], s1, e1) \<Longrightarrow> P"
    and "\<And>uid s1 e1. cached_badges s now u = None \<Longrightarrow>
           Supabase_getUserId s e now u = (Some uid, s1, e1) \<Longrightarrow> uid \<noteq> [] \<Longrightarrow> client s1 \<Longrightarrow>
           BadgesSelect \<notin> set (down (remote e1)) \<Longrightarrow>
           Supabase_getBadges s e now u =
             (map row_badge (sort_key earned_at
                (filter (\<lambda>row. user_id row = uid) (badges_tbl (remote e1)))),
              updateCache_badges s1 now u
                (map row_badge (sort_key earned_at
                   (filter (\<lambda>row. user_id row = uid) (badges_tbl (remote e1))))),
              e1\<lparr>remote := logged BadgesSelect (remote e1)\<rparr>) \<Longrightarrow> P"
    and "\<And>uid s1 e1. cached_badges s now u = None \<Longrightarrow>
           Supabase_getUserId s e now u = (Some uid, s1, e1) \<Longrightarrow> uid \<noteq> [] \<Longrightarrow> client s1 \<Longrightarrow>
           BadgesSelect \<in> set (down (remote e1)) \<Longrightarrow>
           Supabase_getBadges s e now u =
             Supabase_getBadges_catch s1 (e1\<lparr>remote := logged BadgesSelect (remote e1)\<rparr>) u \<Longrightarrow> P"
    and "\<And>uid s1 e1. cached_badges s now u = None \<Longrightarrow>
           Supabase_getUserId s e now u = (Some uid, s1, e1) \<Longrightarrow> uid \<noteq> [] \<Longrightarrow> \<not> client s1 \<Longrightarrow>
           Supabase_getBadges s e now u = Supabase_getBadges_catch s1 e1 u \<Longrightarrow> P"
  shows P
proof (cases "cached_badges s now u")
  case (Some bs)
  then show ?thesis using assms(1) getBadges_cached by blast
next
  case None
  obtain v s1 e1 where g: "Supabase_getUserId s e now u = (v, s1, e1)"
    by (metis prod_cases3)
  show ?thesis
  proof (cases "truthy v")
    case False
    then show ?thesis using None g assms(2) getBadges_nouser by blast
  next
    case True
    then obtain uid where v: "v = Some uid" "uid \<noteq> []"
      by (auto simp: truthy_def split: option.splits)
    show ?thesis
    proof (cases "client s1")
      case False
      then show ?thesis using None g v assms(5) getBadges_noclient by blast
    next
      case cl: True
      show ?thesis
      proof (cases "BadgesSelect \<in> set (down (remote e1))")
        case True
        then show ?thesis using None g v cl assms(4) getBadges_failed by blast
      next
        case False
        then show ?thesis using None g v cl assms(3) getBadges_remote by blast
      qed
    qed
  qed
qed

lemma isCacheValid_iff:
  "isCacheValid s now \<longleftrightarrow>
     (\<exists>t. lastUpdate (cache s) = Some t \<and> t \<noteq> 0 \<and> now - t < cacheTimeout (config s))"
  by (auto simp: isCacheValid_def split: option.splits)

lemma cached_id_valid: "truthy (cached_id s now u) \<Longrightarrow> isCacheValid s now"
  by (auto simp: cached_id_def truthy_def split: if_splits)

lemma cached_badges_valid: "cached_badges s now u = Some bs \<Longrightarrow> isCacheValid s now"
  by (auto simp: cached_badges_def split: if_splits)

lemma getUserId_log:
  "callLog (remote (snd (snd (Supabase_getUserId s e now u)))) =
     (if truthy (cached_id s now u) \<or> \<not> client s then callLog (remote e)
      else callLog (remote e) @ [UsersSelect])"
  by (rule getUserId_cases [of s now u e]) (simp_all add: console_error_def logged_def)

subsection \<open>addBadge on the remote path\<close>

lemma addBadge_try_Inr:
  assumes "Supabase_addBadge_try s e now u n em = (Inr b, s2, e2)"
  obtains uid s1 e1 where "Supabase_getUserId s e now u = (Some uid, s1, e1)" "uid \<noteq> []"
    "client s1" "BadgesInsert \<notin> set (down (remote e1))" "b" "s2 = clearCache s1"
    "e2 = e1\<lparr>remote := (logged BadgesInsert (remote e1))
                 \<lparr>badges_tbl := badges_tbl (remote e1) @ [new_row uid n em now]\<rparr>\<rparr>"
proof -
  obtain v s1 e1 where g: "Supabase_getUserId s e now u = (v, s1, e1)" by (metis prod_cases3)
  with assms obtain uid where v: "v = Some uid" "uid \<noteq> []" "client s1"
    by (auto simp: Supabase_addBadge_try_def split: option.splits if_splits)
  from assms g v have "BadgesInsert \<notin> set (down (remote e1)) \<and> b \<and> s2 = clearCache s1 \<and>
    e2 = e1\<lparr>remote := (logged BadgesInsert (remote e1))
                 \<lparr>badges_tbl := badges_tbl (remote e1) @ [new_row uid n em now]\<rparr>\<rparr>"
    by (auto simp: Supabase_addBadge_try_def insert_badge_def Let_def new_row_def
        split: if_splits)
  with g v that show thesis by blast
qed

lemma getUserId_id:
  assumes "Supabase_getUserId s e now u = (Some uid, s1, e1)" "uid \<noteq> []" "id_coherent s e now u"
  shows "users_tbl (remote e) u = Some uid"
proof (rule getUserId_cases [of s now u e])
  assume "truthy (cached_id s now u)" "Supabase_getUserId s e now u = (cached_id s now u, s, e)"
  then show ?thesis using assms by (simp add: id_coherent_def)
qed (use assms in auto)

lemma clearCache_facts:
  "cached_badges (clearCache s) now u = None" "\<not> truthy (cached_id (clearCache s) now u)"
  "client (clearCache s) = client s" "config (clearCache s) = config s"
  "cache (clearCache s) = empty_cache"
  by (simp_all add: clearCache_def cached_badges_def cached_id_def isCacheValid_def
      empty_cache_def truthy_def)

text \<open>A badge inserted remotely, then read back with the remote reads succeeding.\<close>

lemma addBadge_then_getBadges:
  assumes ins: "Supabase_addBadge_try s e now u n em = (Inr True, s1, e1)"
    and coh: "id_coherent s e now u"
    and up: "UsersSelect \<notin> set (down (remote e))" "BadgesSelect \<notin> set (down (remote e))"
  obtains uid where "users_tbl (remote e) u = Some uid" "uid \<noteq> []"
    "cache s1 = empty_cache" "client s1"
    "fst (Supabase_getBadges s1 e1 now' u) =
       map row_badge (sort_key earned_at
         (filter (\<lambda>row. user_id row = uid) (badges_tbl (remote e) @ [new_row uid n em now])))"
proof -
  from ins obtain uid s0 e0 where g: "Supabase_getUserId s e now u = (Some uid, s0, e0)"
    and uid: "uid \<noteq> []" and cl: "client s0" and s1: "s1 = clearCache s0"
    and e1: "e1 = e0\<lparr>remote := (logged BadgesInsert (remote e0))
                 \<lparr>badges_tbl := badges_tbl (remote e0) @ [new_row uid n em now]\<rparr>\<rparr>"
    by (rule addBadge_try_Inr)
  have tbl: "users_tbl (remote e) u = Some uid" using g uid coh by (rule getUserId_id)
  have fr: "users_tbl (remote e0) = users_tbl (remote e)" "badges_tbl (remote e0) = badges_tbl (remote e)"
    "down (remote e0) = down (remote e)"
    using getUserId_frame [of s e now u] g by simp_all
  have g1: "Supabase_getUserId s1 e1 now' u =
          (Some uid, updateCache_users s1 now' u uid, e1\<lparr>remote := logged UsersSelect (remote e1)\<rparr>)"
    using cl up tbl fr
    by (intro getUserId_found) (simp_all add: s1 e1 clearCache_facts logged_def)
  have "Supabase_getBadges s1 e1 now' u =
     (map row_badge (sort_key earned_at (filter (\<lambda>row. user_id row = uid)
        (badges_tbl (remote (e1\<lparr>remote := logged UsersSelect (remote e1)\<rparr>))))),
      updateCache_badges (updateCache_users s1 now' u uid) now' u
        (map row_badge (sort_key earned_at (filter (\<lambda>row. user_id row = uid)
           (badges_tbl (remote (e1\<lparr>remote := logged UsersSelect (remote e1)\<rparr>)))))),
      (e1\<lparr>remote := logged UsersSelect (remote e1)\<rparr>)
        \<lparr>remote := logged BadgesSelect (remote (e1\<lparr>remote := logged UsersSelect (remote e1)\<rparr>))\<rparr>)"
    using g1 uid cl up fr
    by (intro getBadges_remote)
       (simp_all add: s1 e1 clearCache_facts logged_def updateCache_users_def)
  then have "fst (Supabase_getBadges s1 e1 now' u) =
       map row_badge (sort_key earned_at
         (filter (\<lambda>row. user_id row = uid) (badges_tbl (remote e) @ [new_row uid n em now])))"
    by (simp add: e1 fr logged_def)
  moreover have "cache s1 = empty_cache" "client s1" using cl by (simp_all add: s1 clearCache_facts)
  ultimately show thesis using that tbl uid by blast
qed

lemma addBadge_of_try:
  "Supabase_addBadge_try s e now u n em = (Inr b, s1, e1) \<Longrightarrow>
   Supabase_addBadge s e now u n (Some em) = (Inr b, s1, e1)"
  by (simp add: Supabase_addBadge_def)

subsection \<open>The local store\<close>








lemma routed_cong:
  "sessionStorage e' = sessionStorage e \<Longrightarrow> routed f e' = routed f e"
  by (simp add: routed_def useLocalOnly_def)

subsection \<open>What the reads leave alone\<close>







subsection \<open>The round trip\<close>






subsection \<open>Sessions on the local path\<close>








subsection \<open>The two outcomes of a successful login\<close>






section \<open>The claims\<close>




text \<open>
  C2, as stated: after any successful \<^verbatim>\<open>addBadge(u, ...)\<close>, on the remote path or its
  fallback branch, the cached badge list of \<open>u\<close> is discarded, so the next
  \<^verbatim>\<open>getBadges(u)\<close> reflects the new badge even within the TTL. It fails on the fallback
  branch: with Ivan's empty badge list cached at time 1000 and inserts failing, the call at
  time 2000 returns true after writing the badge to the local store, the cached entry is
  still there, and the read at time 3000 returns the cached empty list.
\<close>

theorem fallback_add_keeps_cache:
  "fst fallback_add = Inr True \<and>
   local_badges (snd (snd fallback_add)) Ivan =
     [Obj \<lparr>name = js ''Star'', emoji = [11088], earnedAt = Some 2000\<rparr>] \<and>
   cached_badges (fst (snd fallback_add)) 3000 Ivan = Some [] \<and>
   fst read_after = []"
  by (simp add: model_defs)

text \<open>
  C2, amended: after an \<^verbatim>\<open>addBadge(u, ...)\<close> whose remote insert succeeds, the call
  returns true and the whole cache is empty; if the cache agreed with the users table about
  \<open>u\<close> and the two select endpoints are reachable, the next \<^verbatim>\<open>getBadges(u)\<close>, at
  whatever time, contains the new badge.
\<close>

theorem addBadge_remote_invalidates:
  assumes "Supabase_addBadge_try s e now u n em = (Inr True, s1, e1)"
    and "id_coherent s e now u"
    and "UsersSelect \<notin> set (down (remote e))" and "BadgesSelect \<notin> set (down (remote e))"
  shows "Supabase_addBadge s e now u n (Some em) = (Inr True, s1, e1) \<and>
         cache s1 = empty_cache \<and>
         \<lparr>name = n, emoji = em, earnedAt = Some now\<rparr> \<in> set (fst (Supabase_getBadges s1 e1 now' u))"
proof -
  from assms obtain uid where "cache s1 = empty_cache"
    and r: "fst (Supabase_getBadges s1 e1 now' u) =
       map row_badge (sort_key earned_at
         (filter (\<lambda>row. user_id row = uid) (badges_tbl (remote e) @ [new_row uid n em now])))"
    by (rule addBadge_then_getBadges)
  moreover have "\<lparr>name = n, emoji = em, earnedAt = Some now\<rparr> = row_badge (new_row uid n em now)"
    by (simp add: row_badge_def new_row_def)
  moreover have "new_row uid n em now \<in> set (sort_key earned_at
         (filter (\<lambda>row. user_id row = uid) (badges_tbl (remote e) @ [new_row uid n em now])))"
    by (simp add: new_row_def)
  ultimately show ?thesis using addBadge_of_try [OF assms(1)] by (simp del: set_sort)
qed

theorem addBadge_remote_invalidates_witness:
  "Supabase_addBadge_try model0 env_Ivan 2000 Ivan (js ''Star'') [11088] =
     (Inr True, fst (snd (Supabase_addBadge_try model0 env_Ivan 2000 Ivan (js ''Star'') [11088])),
      snd (snd (Supabase_addBadge_try model0 env_Ivan 2000 Ivan (js ''Star'') [11088]))) \<and>
   id_coherent model0 env_Ivan 2000 Ivan \<and>
   UsersSelect \<notin> set (down (remote env_Ivan)) \<and> BadgesSelect \<notin> set (down (remote env_Ivan)) \<and>
   cache (fst (snd (Supabase_addBadge_try model0 env_Ivan 2000 Ivan (js ''Star'') [11088]))) =
     empty_cache \<and>
   \<lparr>name = js ''Star'', emoji = [11088], earnedAt = Some 2000\<rparr>
     \<in> set (fst (Supabase_getBadges
          (fst (snd (Supabase_addBadge_try model0 env_Ivan 2000 Ivan (js ''Star'') [11088])))
          (snd (snd (Supabase_addBadge_try model0 env_Ivan 2000 Ivan (js ''Star'') [11088])))
          2500 Ivan))"
proof -
  have ok: "fst (Supabase_addBadge_try model0 env_Ivan 2000 Ivan (js ''Star'') [11088]) = Inr True"
    by (simp add: model_defs)
  have h1: "Supabase_addBadge_try model0 env_Ivan 2000 Ivan (js ''Star'') [11088] =
     (Inr True, fst (snd (Supabase_addBadge_try model0 env_Ivan 2000 Ivan (js ''Star'') [11088])),
      snd (snd (Supabase_addBadge_try model0 env_Ivan 2000 Ivan (js ''Star'') [11088])))"
    using ok by (metis prod.collapse)
  have h2: "id_coherent model0 env_Ivan 2000 Ivan" by (simp add: model_defs)
  have h3: "UsersSelect \<notin> set (down (remote env_Ivan))" by (simp add: model_defs)
  have h4: "BadgesSelect \<notin> set (down (remote env_Ivan))" by (simp add: model_defs)
  from addBadge_remote_invalidates [OF h1 h2 h3 h4, of 2500] h1 h2 h3 h4 show ?thesis
    by blast
qed

text \<open>
  C3, as stated: a cached value is returned only if that entry was written less than the
  TTL ago. It fails because the cache has one timestamp for all its entries: Ivan's id is
  cached at time 1000, the write of his badge list at time 241000 renews the timestamp, and
  at time 361000, six minutes after the id was written and with a TTL of five, the id is
  still answered from the cache, without a remote call.
\<close>

theorem cache_entry_outlives_ttl:
  "cached_id (fst (snd warm1)) 1000 Ivan = Some id1 \<and>
   lastUpdate (cache (fst (snd warm1))) = Some 1000 \<and>
   cache_users (cache (fst (snd warm2))) = cache_users (cache (fst (snd warm1))) \<and>
   lastUpdate (cache (fst (snd warm2))) = Some 241000 \<and>
   cacheTimeout (config (fst (snd warm2))) \<le> 361000 - 1000 \<and>
   fst late_read = Some id1 \<and>
   callLog (remote (snd (snd late_read))) = callLog (remote (snd (snd warm2)))"
  by (simp add: model_defs)

text \<open>
  C3, amended: the cache is valid when its one timestamp, set by the latest write of any
  entry, is neither null nor zero and less than the TTL before now. With a client, a read
  of a user id or a badge list that makes no remote call happens only while the cache is
  valid and returns the cached entry; while the cache is not valid the read goes to the
  remote store, first to its users table.
\<close>

theorem cache_read_only_while_valid:
  assumes "client s"
  shows "(isCacheValid s now \<longleftrightarrow>
            (\<exists>t. lastUpdate (cache s) = Some t \<and> t \<noteq> 0 \<and> now - t < cacheTimeout (config s))) \<and>
         (callLog (remote (snd (snd (Supabase_getUserId s e now u)))) = callLog (remote e) \<longrightarrow>
            isCacheValid s now \<and>
            (\<exists>m. cache_users (cache s) = Some m \<and> m u = fst (Supabase_getUserId s e now u))) \<and>
         (callLog (remote (snd (snd (Supabase_getBadges s e now u)))) = callLog (remote e) \<longrightarrow>
            isCacheValid s now \<and>
            (\<exists>m. cache_badges (cache s) = Some m \<and>
                 m u = Some (fst (Supabase_getBadges s e now u)))) \<and>
         (\<not> isCacheValid s now \<longrightarrow>
            callLog (remote (snd (snd (Supabase_getUserId s e now u)))) =
              callLog (remote e) @ [UsersSelect]) \<and>
         (\<not> isCacheValid s now \<longrightarrow>
            take (Suc (length (callLog (remote e))))
              (callLog (remote (snd (snd (Supabase_getBadges s e now u))))) =
              callLog (remote e) @ [UsersSelect])"
proof -
  have uid: "callLog (remote (snd (snd (Supabase_getUserId s e now u)))) = callLog (remote e) \<longrightarrow>
            isCacheValid s now \<and>
            (\<exists>m. cache_users (cache s) = Some m \<and> m u = fst (Supabase_getUserId s e now u))"
  proof
    assume "callLog (remote (snd (snd (Supabase_getUserId s e now u)))) = callLog (remote e)"
    then have t: "truthy (cached_id s now u)"
      using assms by (simp add: getUserId_log split: if_splits)
    then have "fst (Supabase_getUserId s e now u) = cached_id s now u"
      by (simp add: getUserId_cached)
    moreover have "isCacheValid s now" using t by (rule cached_id_valid)
    moreover have "\<exists>m. cache_users (cache s) = Some m \<and> m u = cached_id s now u"
      using t by (auto simp: cached_id_def truthy_def split: if_splits option.splits)
    ultimately show "isCacheValid s now \<and>
            (\<exists>m. cache_users (cache s) = Some m \<and> m u = fst (Supabase_getUserId s e now u))"
      by simp
  qed
  have uidlog: "\<not> isCacheValid s now \<longrightarrow>
            callLog (remote (snd (snd (Supabase_getUserId s e now u)))) =
              callLog (remote e) @ [UsersSelect]"
    using assms cached_id_valid [of s now u] by (auto simp: getUserId_log)
  have grows: "cached_badges s now u = None \<Longrightarrow>
     \<exists>rest. callLog (remote (snd (snd (Supabase_getBadges s e now u)))) =
            callLog (remote (snd (snd (Supabase_getUserId s e now u)))) @ rest \<and>
            (truthy (cached_id s now u) \<longrightarrow> rest \<noteq> [])"
  proof (rule getBadges_cases [of s now u e])
    fix v s1 e1
    assume "Supabase_getUserId s e now u = (v, s1, e1)" "\<not> truthy v"
      "Supabase_getBadges s e now u = ([], s1, e1)"
    then show ?thesis
      using getUserId_cached [of s now u e] by auto
  next
    fix uid s1 e1
    assume "Supabase_getUserId s e now u = (Some uid, s1, e1)"
      "Supabase_getBadges s e now u =
         Supabase_getBadges_catch s1 (e1\<lparr>remote := logged BadgesSelect (remote e1)\<rparr>) u"
    then show ?thesis
      using getBadges_catch_frame [of s1 "e1\<lparr>remote := logged BadgesSelect (remote e1)\<rparr>" u]
      by (simp add: logged_def)
  next
    fix uid s1 e1
    assume "Supabase_getUserId s e now u = (Some uid, s1, e1)" "\<not> client s1"
    then show ?thesis
      using assms getUserId_frame [of s e now u] by simp
  qed (simp_all add: logged_def)
  have bs: "callLog (remote (snd (snd (Supabase_getBadges s e now u)))) = callLog (remote e) \<longrightarrow>
            isCacheValid s now \<and>
            (\<exists>m. cache_badges (cache s) = Some m \<and>
                 m u = Some (fst (Supabase_getBadges s e now u)))"
  proof
    assume same: "callLog (remote (snd (snd (Supabase_getBadges s e now u)))) = callLog (remote e)"
    have "cached_badges s now u \<noteq> None"
    proof
      assume n: "cached_badges s now u = None"
      from grows [OF n] same show False
        using assms by (auto simp: getUserId_log split: if_splits)
    qed
    then obtain cb where cb: "cached_badges s now u = Some cb" by blast
    then have "fst (Supabase_getBadges s e now u) = cb" by (simp add: getBadges_cached)
    moreover have "isCacheValid s now" using cb by (rule cached_badges_valid)
    moreover have "\<exists>m. cache_badges (cache s) = Some m \<and> m u = Some cb"
      using cb by (auto simp: cached_badges_def split: if_splits option.splits)
    ultimately show "isCacheValid s now \<and>
            (\<exists>m. cache_badges (cache s) = Some m \<and> m u = Some (fst (Supabase_getBadges s e now u)))"
      by simp
  qed
  have bslog: "\<not> isCacheValid s now \<longrightarrow>
            take (Suc (length (callLog (remote e))))
              (callLog (remote (snd (snd (Supabase_getBadges s e now u))))) =
              callLog (remote e) @ [UsersSelect]"
  proof
    assume nv: "\<not> isCacheValid s now"
    then have n: "cached_badges s now u = None" by (simp add: cached_badges_def)
    have "\<not> truthy (cached_id s now u)" using nv cached_id_valid by blast
    then have "callLog (remote (snd (snd (Supabase_getUserId s e now u)))) =
                 callLog (remote e) @ [UsersSelect]"
      using assms by (simp add: getUserId_log)
    with grows [OF n] show "take (Suc (length (callLog (remote e))))
              (callLog (remote (snd (snd (Supabase_getBadges s e now u))))) =
              callLog (remote e) @ [UsersSelect]"
      by auto
  qed
  from isCacheValid_iff [of s now] uid uidlog bs bslog show ?thesis by blast
qed

theorem cache_read_only_while_valid_witness:
  "client model0 \<and> \<not> isCacheValid model0 1000 \<and>
   callLog (remote (snd (snd (Supabase_getUserId model0 env_Ivan 1000 Ivan)))) =
     callLog (remote env_Ivan) @ [UsersSelect] \<and>
   client (fst (snd warm2)) \<and>
   callLog (remote (snd (snd (Supabase_getBadges (fst (snd warm2)) (snd (snd warm2)) 361000 Ivan))))
     = callLog (remote (snd (snd warm2))) \<and>
   isCacheValid (fst (snd warm2)) 361000"
proof -
  have h1: "client model0" by (simp add: model_defs)
  have h2: "\<not> isCacheValid model0 1000" by (simp add: model_defs)
  have h3: "client (fst (snd warm2))" by (simp add: model_defs)
  have h4: "callLog (remote (snd (snd (Supabase_getBadges (fst (snd warm2)) (snd (snd warm2))
              361000 Ivan)))) = callLog (remote (snd (snd warm2)))"
    by (simp add: model_defs)
  from cache_read_only_while_valid [OF h1, of 1000 env_Ivan Ivan]
    cache_read_only_while_valid [OF h3, of 361000 "snd (snd warm2)" Ivan] h1 h2 h3 h4
  show ?thesis by blast
qed






text \<open>
  C6: for an empty or whitespace-only user name \<^verbatim>\<open>setCurrentUser\<close> of either model
  returns false and leaves the model and the whole environment as they were: the session
  marker is not set, and neither the local store nor the remote service is called.
\<close>

theorem setCurrentUser_rejects_blank:
  assumes "\<forall>c\<in>set username. is_ws c"
  shows "User_setCurrentUser f e now username password = (False, f, e) \<and>
         Supabase_setCurrentUser s e username password = (False, s, e)"
  using assms
  by (simp add: blank_iff [symmetric] User_setCurrentUser_def Supabase_setCurrentUser_def)

theorem setCurrentUser_rejects_blank_witness:
  "is_ws 32 \<and> is_ws 9 \<and> is_ws 160 \<and>
   User_setCurrentUser facade0 env0 1000 [32, 9, 160] (Some (js ''secret'')) =
     (False, facade0, env0) \<and>
   User_getCurrentUser env0 = None \<and>
   Supabase_setCurrentUser model0 env0 [32, 9, 160] None = (False, model0, env0)"
proof -
  have h: "\<forall>c\<in>set [32, 9, 160]. is_ws c" by (simp add: is_ws_def)
  have "User_getCurrentUser env0 = None" by (simp add: model_defs)
  with setCurrentUser_rejects_blank [OF h] h show ?thesis by simp
qed




text \<open>
  C8, as stated: the lookup of a user id reports a failed call differently from a missing
  user. It does not: for a user the service does not know, and for a known user while the
  users endpoint fails, \<^verbatim>\<open>getUserId\<close> returns the same \<^verbatim>\<open>null\<close>.
\<close>

theorem getUserId_failure_looks_absent:
  "users_tbl (remote env0) Ivan = None \<and>
   fst (Supabase_getUserId model0 env0 1000 Ivan) = None \<and>
   users_tbl (remote (unreachable [UsersSelect] env_Ivan)) Ivan = Some id1 \<and>
   fst (Supabase_getUserId model0 (unreachable [UsersSelect] env_Ivan) 1000 Ivan) = None"
  by (simp add: model_defs)

text \<open>
  C8, amended: with a client and no usable cached id, a missing user yields \<^verbatim>\<open>null\<close>
  and nothing else; a failed call yields \<^verbatim>\<open>null\<close> as well and differs only in the line
  it writes with \<^verbatim>\<open>console.error\<close>; a found user yields the id, which is cached. The
  model's cache is written in the last case only.
\<close>

theorem getUserId_outcomes:
  assumes "client s" and "\<not> truthy (cached_id s now username)"
  shows "(UsersSelect \<notin> set (down (remote e)) \<and> users_tbl (remote e) username = None \<longrightarrow>
            Supabase_getUserId s e now username =
              (None, s, e\<lparr>remote := logged UsersSelect (remote e)\<rparr>)) \<and>
         (UsersSelect \<in> set (down (remote e)) \<longrightarrow>
            Supabase_getUserId s e now username =
              (None, s, console_error ''Error getting user ID:''
                          (e\<lparr>remote := logged UsersSelect (remote e)\<rparr>))) \<and>
         (\<forall>uid. UsersSelect \<notin> set (down (remote e)) \<and> users_tbl (remote e) username = Some uid \<longrightarrow>
            Supabase_getUserId s e now username =
              (Some uid, updateCache_users s now username uid,
               e\<lparr>remote := logged UsersSelect (remote e)\<rparr>))"
  using assms
  by (simp add: getUserId_missing getUserId_down getUserId_found)

theorem getUserId_outcomes_witness:
  "client model0 \<and> \<not> truthy (cached_id model0 1000 Ivan) \<and>
   UsersSelect \<in> set (down (remote (unreachable [UsersSelect] env_Ivan))) \<and>
   Supabase_getUserId model0 (unreachable [UsersSelect] env_Ivan) 1000 Ivan =
     (None, model0, console_error ''Error getting user ID:''
        ((unreachable [UsersSelect] env_Ivan)
           \<lparr>remote := logged UsersSelect (remote (unreachable [UsersSelect] env_Ivan))\<rparr>)) \<and>
   UsersSelect \<notin> set (down (remote env0)) \<and> users_tbl (remote env0) Ivan = None \<and>
   Supabase_getUserId model0 env0 1000 Ivan =
     (None, model0, env0\<lparr>remote := logged UsersSelect (remote env0)\<rparr>)"
proof -
  have h1: "client model0" by (simp add: model_defs)
  have h2: "\<not> truthy (cached_id model0 1000 Ivan)" by (simp add: model_defs)
  have h3: "UsersSelect \<in> set (down (remote (unreachable [UsersSelect] env_Ivan)))"
    by (simp add: model_defs)
  have h4: "UsersSelect \<notin> set (down (remote env0)) \<and> users_tbl (remote env0) Ivan = None"
    by (simp add: model_defs)
  from getUserId_outcomes [OF h1 h2, of "unreachable [UsersSelect] env_Ivan"]
    getUserId_outcomes [OF h1 h2, of env0] h1 h2 h3 h4
  show ?thesis by blast
qed

text \<open>
  C9: when the persisted text is absent, or present and rejected by \<^verbatim>\<open>JSON.parse\<close>,
  \<^verbatim>\<open>getAllUsers\<close> returns the empty object; it has no exception to give, and it leaves
  the stores as they are.
\<close>

theorem getAllUsers_fails_soft:
  assumes "localStorage e = None \<or> (\<exists>t. localStorage e = Some (Unparsable t))"
  shows "fst (User_getAllUsers e) = Map.empty \<and>
         localStorage (snd (User_getAllUsers e)) = localStorage e \<and>
         sessionStorage (snd (User_getAllUsers e)) = sessionStorage e \<and>
         remote (snd (User_getAllUsers e)) = remote e"
  using assms
  by (auto simp: User_getAllUsers_def JSON_parse_def falsy_text_def console_error_def)

theorem getAllUsers_fails_soft_witness:
  "(localStorage env_corrupt = None \<or> (\<exists>t. localStorage env_corrupt = Some (Unparsable t))) \<and>
   fst (User_getAllUsers env_corrupt) = Map.empty \<and>
   localStorage (snd (User_getAllUsers env_corrupt)) = localStorage env_corrupt"
proof -
  have h: "localStorage env_corrupt = None \<or> (\<exists>t. localStorage env_corrupt = Some (Unparsable t))"
    by (simp add: model_defs)
  from getAllUsers_fails_soft [OF h] h show ?thesis by blast
qed

text \<open>
  C10: whatever the session and the state of the remote service, after \<^verbatim>\<open>logout\<close> of the
  remote-backed model the four session keys are absent, the cache is empty and no user id
  is held. When the sign-out call throws, the error is logged and these effects stay. The
  facade's \<^verbatim>\<open>logout\<close> is this one whenever the remote model is available.
\<close>

theorem logout_clears_session_and_cache:
  "sessionStorage (snd (Supabase_logout s e)) ''lumi_current_user'' = None \<and>
   sessionStorage (snd (Supabase_logout s e)) ''lumi_user_id'' = None \<and>
   sessionStorage (snd (Supabase_logout s e)) ''lumi_auth_user'' = None \<and>
   sessionStorage (snd (Supabase_logout s e)) ''lumi_use_local_only'' = None \<and>
   cache (fst (Supabase_logout s e)) = empty_cache \<and>
   currentUserId (fst (Supabase_logout s e)) = None \<and>
   (client s \<and> SignOut \<in> set (down (remote e)) \<longrightarrow>
      console (snd (Supabase_logout s e)) = console e @ [''Error signing out:'']) \<and>
   (supabaseStorage f = Some s \<and> client s \<longrightarrow>
      User_logout f e =
        (f\<lparr>supabaseStorage := Some (fst (Supabase_logout s e))\<rparr>, snd (Supabase_logout s e)))"
  by (auto simp: Supabase_logout_def Let_def removeItem_def clearCache_def signOut_def
      logged_def console_error_def User_logout_def available_def Supabase_isAvailable_def
      split: prod.splits response.splits)

theorem logout_clears_session_and_cache_witness:
  "sessionStorage (unreachable [SignOut] env_session) ''lumi_current_user'' = Some Ivan \<and>
   client model0 \<and> SignOut \<in> set (down (remote (unreachable [SignOut] env_session))) \<and>
   sessionStorage (snd (Supabase_logout model0 (unreachable [SignOut] env_session)))
     ''lumi_current_user'' = None \<and>
   console (snd (Supabase_logout model0 (unreachable [SignOut] env_session))) =
     console (unreachable [SignOut] env_session) @ [''Error signing out:'']"
proof -
  have h0: "sessionStorage (unreachable [SignOut] env_session) ''lumi_current_user'' = Some Ivan"
    by (simp add: model_defs)
  have h1: "client model0" by (simp add: model_defs)
  have h2: "SignOut \<in> set (down (remote (unreachable [SignOut] env_session)))"
    by (simp add: model_defs)
  from logout_clears_session_and_cache
         [of model0 "unreachable [SignOut] env_session" facade0] h0 h1 h2
  show ?thesis by blast
qed

end
